theory Spec2Isabelle
  imports Complex_Main "HOL-Library.AList"
begin

section \<open>Strings, numbers and JSON values\<close>

text \<open>
  A JavaScript string is a sequence of UTF-16 code units, each a natural number below
  65536. The literals of the program are ASCII; \<open>utf16\<close> gives their code units.
\<close>

type_synonym js_string = "nat list"

definition utf16 :: "string \<Rightarrow> js_string" where
  "utf16 s = map of_char s"

text \<open>
  The numbers \<open>JSON.parse\<close> can return: a finite double (with \<open>Finite 0\<close> the positive
  zero), the negative zero (from \<open>-0\<close>), and the two infinities (from a numeral beyond the
  double range such as \<open>1e400\<close>). \<open>NaN\<close> is not among them.
\<close>

datatype number = Finite rat | NegZero | Infinity | NegInfinity

text \<open>
  A JavaScript value that came out of \<open>JSON.parse\<close> is a \<open>json\<close>; a property read that
  finds nothing gives \<open>undefined\<close>, modelled as \<open>None\<close> of \<open>json option\<close>. An object
  read by \<open>JSON.parse\<close> has each key once; the association list keeps the insertion order.
\<close>

datatype json =
    JNull
  | JBool bool
  | JNum number
  | JStr js_string
  | JArr "json list"
  | JObj "(js_string \<times> json) list"

text \<open>
  The content of a file or of a request body is abstracted to what \<open>JSON.parse\<close> makes
  of it: either the text is rejected (with the message of the \<open>SyntaxError\<close>), or it is
  read as a value. Two texts read as the same value are the same content, so indentation
  (\<open>JSON.stringify(config, null, 2)\<close>) is not visible at this level.
\<close>

datatype content = Malformed js_string | Serialized json

datatype exn = SyntaxError js_string | TypeError js_string

fun message :: "exn \<Rightarrow> js_string" where
  "message (SyntaxError m) = m"
| "message (TypeError m) = m"

fun JSON_parse :: "content \<Rightarrow> exn + json" where
  "JSON_parse (Malformed m) = Inl (SyntaxError m)"
| "JSON_parse (Serialized v) = Inr v"

text \<open>
  What \<open>JSON.parse\<close> reads back from the text \<open>JSON.stringify\<close> writes for a value: an
  infinity is written \<open>null\<close>, the negative zero is written \<open>0\<close>, everything else is
  read back as it was.
\<close>

primrec to_JSON :: "json \<Rightarrow> json" where
  "to_JSON JNull = JNull"
| "to_JSON (JBool b) = JBool b"
| "to_JSON (JNum n) =
     (case n of
        Finite r \<Rightarrow> JNum (Finite r)
      | NegZero \<Rightarrow> JNum (Finite 0)
      | Infinity \<Rightarrow> JNull
      | NegInfinity \<Rightarrow> JNull)"
| "to_JSON (JStr s) = JStr s"
| "to_JSON (JArr xs) = JArr (map to_JSON xs)"
| "to_JSON (JObj kvs) = JObj (map (map_prod id to_JSON) kvs)"

definition JSON_stringify :: "json \<Rightarrow> content" where
  "JSON_stringify v = Serialized (to_JSON v)"

text \<open>
  \<open>v.k\<close> for the property names the routes read (\<open>blocks\<close>, \<open>trials_per_block\<close>,
  \<open>num_blocks\<close>, \<open>state\<close>, \<open>error\<close>), none of which a string, number, boolean or
  array has. Reading a property of \<open>null\<close> or \<open>undefined\<close> throws a \<open>TypeError\<close>.
\<close>

definition quoted :: "js_string \<Rightarrow> js_string" where
  "quoted k = 0x27 # k @ [0x27]"

fun read_prop :: "json option \<Rightarrow> js_string \<Rightarrow> exn + json option" where
  "read_prop None k =
     Inl (TypeError
       (utf16 ''Cannot read properties of undefined (reading '' @ quoted k @ utf16 '')''))"
| "read_prop (Some JNull) k =
     Inl (TypeError
       (utf16 ''Cannot read properties of null (reading '' @ quoted k @ utf16 '')''))"
| "read_prop (Some (JObj kvs)) k = Inr (map_of kvs k)"
| "read_prop (Some v) k = Inr None"

text \<open>An object literal; \<open>JSON.stringify\<close> leaves out the members that are \<open>undefined\<close>.\<close>

fun object_literal :: "(js_string \<times> json option) list \<Rightarrow> (js_string \<times> json) list" where
  "object_literal [] = []"
| "object_literal ((k, None) # ms) = object_literal ms"
| "object_literal ((k, Some v) # ms) = (k, v) # object_literal ms"

fun truthy :: "json \<Rightarrow> bool" where
  "truthy JNull = False"
| "truthy (JBool b) = b"
| "truthy (JNum n) =
     (case n of
        Finite r \<Rightarrow> r \<noteq> 0
      | NegZero \<Rightarrow> False
      | Infinity \<Rightarrow> True
      | NegInfinity \<Rightarrow> True)"
| "truthy (JStr s) = (s \<noteq> [])"
| "truthy (JArr xs) = True"
| "truthy (JObj kvs) = True"

fun show_nat :: "nat \<Rightarrow> string" where
  "show_nat n =
     (if n < 10 then [''0123456789'' ! n]
      else show_nat (n div 10) @ [''0123456789'' ! (n mod 10)])"

declare show_nat.simps [simp del]

definition show_int :: "int \<Rightarrow> string" where
  "show_int i = (if i < 0 then ''-'' @ show_nat (nat (- i)) else show_nat (nat i))"

text \<open>
  The own enumerable properties an object spread \<open>{...v}\<close> copies: the members of an
  object, the indexed elements of an array, the indexed code units of a string, nothing
  for a number or a boolean.
\<close>

fun own_props :: "json \<Rightarrow> (js_string \<times> json) list" where
  "own_props (JObj kvs) = kvs"
| "own_props (JArr xs) = zip (map (\<lambda>i. utf16 (show_nat i)) [0..<length xs]) xs"
| "own_props (JStr s) =
     zip (map (\<lambda>i. utf16 (show_nat i)) [0..<length s]) (map (\<lambda>u. JStr [u]) s)"
| "own_props v = []"

section \<open>The orchestrator's state\<close>

datatype effect =
    MkDir string
  | WriteFile string content
  | Unlink string
  | Spawn string "string list"
  | Kill "string list"

fun is_Spawn :: "effect \<Rightarrow> bool" where
  "is_Spawn (Spawn c as) = True"
| "is_Spawn e = False"

record child =
  spawnargs :: "string list"
  killed :: bool

text \<open>
  The module variables of the start route; the \<open>stderrBuffer\<close> of each call of \<open>POST\<close>
  that spawned (the buffer is a local of the call, shared by the handlers that call
  registered: \<open>stderrBuffer s i\<close> is the one of the \<open>i\<close>-th such call, \<open>calls s\<close> their
  number); the files under the project root; and the file and process operations the
  orchestrator has performed so far, oldest first. File operations are taken to succeed.
\<close>

record server =
  stimulusProcess :: "child option"
  feedbackProcess :: "child option"
  processError :: "js_string option"
  processExited :: bool
  calls :: nat
  stderrBuffer :: "nat \<Rightarrow> js_string"
  files :: "string \<rightharpoonup> content"
  trace :: "effect list"

datatype response = Response nat json

definition tmpDir :: string where "tmpDir = ''tmp''"
definition dataDir :: string where "dataDir = ''data''"
definition configPath :: string where "configPath = ''tmp/config.json''"
definition statusPath :: string where "statusPath = ''tmp/status.json''"
definition feedbackPath :: string where "feedbackPath = ''tmp/feedback.json''"
definition scriptPath :: string where "scriptPath = ''src/backend/mi_stimulus.py''"
definition feedbackScriptPath :: string where "feedbackScriptPath = ''src/backend/feedback.py''"

definition mkdirSync :: "string \<Rightarrow> server \<Rightarrow> server" where
  "mkdirSync d s = s\<lparr>trace := trace s @ [MkDir d]\<rparr>"

definition writeFileSync :: "string \<Rightarrow> content \<Rightarrow> server \<Rightarrow> server" where
  "writeFileSync p t s = s\<lparr>files := (files s)(p \<mapsto> t), trace := trace s @ [WriteFile p t]\<rparr>"

definition unlinkSync :: "string \<Rightarrow> server \<Rightarrow> server" where
  "unlinkSync p s = s\<lparr>files := (files s)(p := None), trace := trace s @ [Unlink p]\<rparr>"

definition spawn_args :: "string \<Rightarrow> string list" where
  "spawn_args script = [script, ''--config'', configPath]"

text \<open>\<open>h && !h.killed\<close> for a process handle \<open>h\<close>.\<close>

fun alive :: "child option \<Rightarrow> bool" where
  "alive None = False"
| "alive (Some c) = (if killed c then False else True)"

text \<open>The bodies the start route answers with; they hold no number.\<close>

definition json_error :: "js_string \<Rightarrow> json" where
  "json_error m = JObj [(utf16 ''error'', JStr m)]"

definition json_success :: json where
  "json_success = JObj [(utf16 ''success'', JBool True)]"

section \<open>The start route: handlers of the child processes\<close>

text \<open>\<open>b.slice(-500)\<close>: the last 500 code units.\<close>

definition last500 :: "js_string \<Rightarrow> js_string" where
  "last500 b = drop (length b - 500) b"

definition aborted_status :: json where
  "aborted_status = JObj
     [(utf16 ''state'', JStr (utf16 ''aborted'')), (utf16 ''phase'', JStr (utf16 ''none'')),
      (utf16 ''current_trial'', JNum (Finite 0)), (utf16 ''total_trials'', JNum (Finite 0)),
      (utf16 ''current_block'', JNum (Finite 0)), (utf16 ''total_blocks'', JNum (Finite 0)),
      (utf16 ''bad_trials'', JNum (Finite 0)), (utf16 ''elapsed_seconds'', JNum (Finite 0)),
      (utf16 ''output_file'', JStr [])]"

text \<open>\<open>v.state !== "aborted" && v.state !== "completed"\<close> for a value that is not null.\<close>

definition not_terminal :: "json option \<Rightarrow> bool" where
  "not_terminal st =
     (if st = Some (JStr (utf16 ''aborted'')) then False
      else if st = Some (JStr (utf16 ''completed'')) then False else True)"

text \<open>
  The \<open>try\<close> block of the exit handler of the stimulus process. What it finds in
  \<open>status.json\<close> decides whether it writes the fallback document; an exception inside
  the \<open>try\<close> is swallowed.
\<close>

definition exit_fallback :: "server \<Rightarrow> server" where
  "exit_fallback s =
     (case (case files s statusPath of None \<Rightarrow> Inr JNull | Some t \<Rightarrow> JSON_parse t) of
        Inl e \<Rightarrow> s
      | Inr existing \<Rightarrow>
          if truthy existing then
            (case read_prop (Some existing) (utf16 ''state'') of
               Inl e \<Rightarrow> s
             | Inr st \<Rightarrow>
                 if not_terminal st
                 then writeFileSync statusPath (JSON_stringify aborted_status) s
                 else s)
          else writeFileSync statusPath (JSON_stringify aborted_status) s)"

text \<open>
  The exit handler registered by the \<open>i\<close>-th spawning call of \<open>POST\<close>: it reads the
  \<open>stderrBuffer\<close> of that call and sets the module variables.
\<close>

definition stimulus_exit :: "nat \<Rightarrow> int option \<Rightarrow> server \<Rightarrow> server" where
  "stimulus_exit i code s =
     (let s1 = s\<lparr>processExited := True\<rparr>;
          s2 = (case code of
                  None \<Rightarrow> s1
                | Some c \<Rightarrow>
                    if c = 0 then s1
                    else exit_fallback
                      (s1\<lparr>processError :=
                          Some (if last500 (stderrBuffer s1 i) = []
                                then utf16 (''Process exited with code '' @ show_int c)
                                else last500 (stderrBuffer s1 i))\<rparr>))
      in s2\<lparr>stimulusProcess := None\<rparr>)"

definition stimulus_error :: "js_string \<Rightarrow> server \<Rightarrow> server" where
  "stimulus_error m s =
     s\<lparr>processError :=
         Some (utf16 ''Failed to start Python: '' @ m
               @ utf16 ''. Is Python installed and on PATH?''),
       processExited := True,
       stimulusProcess := None\<rparr>"

text \<open>
  What can happen while a request is not running, or during the settle interval of
  \<open>POST\<close>: a stimulus child (named by the index of the call that spawned it) writes
  to its pipes, exits or fails to start; a feedback child exits or fails to start; and
  the children write the documents they own.
\<close>

datatype event =
    Stimulus_stderr nat js_string
  | Stimulus_stdout nat js_string
  | Stimulus_exit nat "int option"
  | Stimulus_error nat js_string
  | Feedback_exit
  | Feedback_error js_string
  | Child_writes string content

fun handle :: "event \<Rightarrow> server \<Rightarrow> server" where
  "handle (Stimulus_stderr i d) s = s\<lparr>stderrBuffer := (stderrBuffer s)(i := stderrBuffer s i @ d)\<rparr>"
| "handle (Stimulus_stdout i d) s = s"
| "handle (Stimulus_exit i code) s = stimulus_exit i code s"
| "handle (Stimulus_error i m) s = stimulus_error m s"
| "handle Feedback_exit s = s\<lparr>feedbackProcess := None\<rparr>"
| "handle (Feedback_error m) s = s\<lparr>feedbackProcess := None\<rparr>"
| "handle (Child_writes p t) s = s\<lparr>files := (files s)(p \<mapsto> t)\<rparr>"

fun settle :: "event list \<Rightarrow> server \<Rightarrow> server" where
  "settle [] s = s"
| "settle (e # es) s = settle es (handle e s)"

section \<open>The start route: POST and DELETE\<close>

text \<open>
  The initial status document of \<open>POST\<close>. The two totals are read from the parsed
  body, \<open>config.blocks.trials_per_block\<close> first; either read can throw.
\<close>

definition initial_status :: "json \<Rightarrow> exn + json" where
  "initial_status config =
     (case read_prop (Some config) (utf16 ''blocks'') of
        Inl e \<Rightarrow> Inl e
      | Inr blocks \<Rightarrow>
          (case read_prop blocks (utf16 ''trials_per_block'') of
             Inl e \<Rightarrow> Inl e
           | Inr total_trials \<Rightarrow>
               (case read_prop blocks (utf16 ''num_blocks'') of
                  Inl e \<Rightarrow> Inl e
                | Inr total_blocks \<Rightarrow>
                    Inr (JObj (object_literal
                      [(utf16 ''state'', Some (JStr (utf16 ''practice''))),
                       (utf16 ''phase'', Some (JStr (utf16 ''none''))),
                       (utf16 ''current_trial'', Some (JNum (Finite 0))),
                       (utf16 ''total_trials'', total_trials),
                       (utf16 ''current_block'', Some (JNum (Finite 0))),
                       (utf16 ''total_blocks'', total_blocks),
                       (utf16 ''bad_trials'', Some (JNum (Finite 0))),
                       (utf16 ''elapsed_seconds'', Some (JNum (Finite 0))),
                       (utf16 ''output_file'', Some (JStr []))])))))"

text \<open>The spawn of the stimulus process, with the fresh \<open>stderrBuffer\<close> of this call.\<close>

definition spawn_stimulus :: "server \<Rightarrow> server" where
  "spawn_stimulus s =
     s\<lparr>stimulusProcess := Some \<lparr>spawnargs = spawn_args scriptPath, killed = False\<rparr>,
       stderrBuffer := (stderrBuffer s)(calls s := []),
       calls := Suc (calls s),
       trace := trace s @ [Spawn ''python'' (spawn_args scriptPath)]\<rparr>"

definition spawn_feedback :: "server \<Rightarrow> server" where
  "spawn_feedback s =
     s\<lparr>feedbackProcess := Some \<lparr>spawnargs = spawn_args feedbackScriptPath, killed = False\<rparr>,
       trace := trace s @ [Spawn ''python'' (spawn_args feedbackScriptPath)]\<rparr>"

text \<open>The start of the \<open>try\<close> block: both directories, then \<open>config.json\<close>.\<close>

definition persist_config :: "json \<Rightarrow> server \<Rightarrow> server" where
  "persist_config config s =
     writeFileSync configPath (JSON_stringify config) (mkdirSync dataDir (mkdirSync tmpDir s))"

text \<open>From the write of \<open>status.json\<close> to the registration of the last handler.\<close>

definition launch :: "json \<Rightarrow> server \<Rightarrow> server" where
  "launch st s =
     spawn_feedback (spawn_stimulus
       ((writeFileSync statusPath (JSON_stringify st) s)
          \<lparr>processError := None, processExited := False\<rparr>))"

text \<open>
  \<open>processError || stderrBuffer.slice(-500) || "Process exited immediately"\<close>, with the
  buffer of the call whose index is \<open>i\<close>.
\<close>

definition exit_reason :: "nat \<Rightarrow> server \<Rightarrow> js_string" where
  "exit_reason i s =
     (case processError s of
        Some m \<Rightarrow>
          if m = [] then
            (if last500 (stderrBuffer s i) = [] then utf16 ''Process exited immediately''
             else last500 (stderrBuffer s i))
          else m
      | None \<Rightarrow>
          if last500 (stderrBuffer s i) = [] then utf16 ''Process exited immediately''
          else last500 (stderrBuffer s i))"

text \<open>
  \<open>POST body evs s\<close>: the request body, the events the handlers see during the 1500 ms
  settle interval, and the state before the call.
\<close>

definition POST :: "content \<Rightarrow> event list \<Rightarrow> server \<Rightarrow> response \<times> server" where
  "POST body evs s =
     (if alive (stimulusProcess s)
      then (Response 409 (json_error (utf16 ''A session is already running'')), s)
      else
        (case JSON_parse body of
           Inl e \<Rightarrow> (Response 500 (json_error (message e)), s)
         | Inr config \<Rightarrow>
             (let s1 = persist_config config s in
              case initial_status config of
                Inl e \<Rightarrow> (Response 500 (json_error (message e)), s1)
              | Inr st \<Rightarrow>
                  (let s2 = settle evs (launch st s1) in
                   if processExited s2
                   then (Response 500 (json_error (exit_reason (calls s1) s2)), s2)
                   else (Response 200 json_success, s2)))))"

text \<open>
  \<open>{ ...currentStatus, state: "aborted", phase: "none" }\<close>: a member that exists is
  overwritten in place, one that does not is appended.
\<close>

definition aborted_copy :: "json \<Rightarrow> json" where
  "aborted_copy currentStatus =
     JObj (AList.update (utf16 ''phase'') (JStr (utf16 ''none''))
            (AList.update (utf16 ''state'') (JStr (utf16 ''aborted''))
              (own_props currentStatus)))"

text \<open>\<open>currentStatus\<close> of \<open>DELETE\<close>: it stays \<open>null\<close> when the read or the parse throws.\<close>

definition read_status :: "server \<Rightarrow> json" where
  "read_status s =
     (case files s statusPath of
        None \<Rightarrow> JNull
      | Some t \<Rightarrow> (case JSON_parse t of Inl e \<Rightarrow> JNull | Inr v \<Rightarrow> v))"

definition kill_stimulus :: "server \<Rightarrow> server" where
  "kill_stimulus s =
     (case stimulusProcess s of
        None \<Rightarrow> s
      | Some c \<Rightarrow> s\<lparr>stimulusProcess := None, trace := trace s @ [Kill (spawnargs c)]\<rparr>)"

definition kill_feedback :: "server \<Rightarrow> server" where
  "kill_feedback s =
     (case feedbackProcess s of
        None \<Rightarrow> s
      | Some c \<Rightarrow>
          if alive (Some c)
          then s\<lparr>feedbackProcess := None, trace := trace s @ [Kill (spawnargs c)]\<rparr>
          else s)"

definition remove_feedback :: "server \<Rightarrow> server" where
  "remove_feedback s =
     (case files s feedbackPath of None \<Rightarrow> s | Some t \<Rightarrow> unlinkSync feedbackPath s)"

definition mark_aborted :: "json \<Rightarrow> server \<Rightarrow> server" where
  "mark_aborted currentStatus s =
     (if truthy currentStatus then
        (case read_prop (Some currentStatus) (utf16 ''state'') of
           Inl e \<Rightarrow> s
         | Inr st \<Rightarrow>
             if not_terminal st
             then writeFileSync statusPath (JSON_stringify (aborted_copy currentStatus)) s
             else s)
      else s)"

definition DELETE :: "server \<Rightarrow> response \<times> server" where
  "DELETE s =
     (Response 200 json_success,
      if alive (stimulusProcess s)
      then (let currentStatus = read_status s
            in mark_aborted currentStatus (remove_feedback (kill_feedback (kill_stimulus s))))
      else s)"

section \<open>The status and feedback routes\<close>

definition idle_status :: json where
  "idle_status = JObj
     [(utf16 ''state'', JStr (utf16 ''idle'')), (utf16 ''phase'', JStr (utf16 ''none'')),
      (utf16 ''current_trial'', JNum (Finite 0)), (utf16 ''total_trials'', JNum (Finite 0)),
      (utf16 ''current_block'', JNum (Finite 0)), (utf16 ''total_blocks'', JNum (Finite 0)),
      (utf16 ''bad_trials'', JNum (Finite 0)), (utf16 ''elapsed_seconds'', JNum (Finite 0)),
      (utf16 ''output_file'', JStr [])]"

definition DISCONNECTED_STATE :: json where
  "DISCONNECTED_STATE = JObj
     [(utf16 ''timestamp'', JNum (Finite 0)), (utf16 ''connected'', JBool False),
      (utf16 ''stream_name'', JNull),
      (utf16 ''channels'', JObj
         [(utf16 ''C3'', JObj [(utf16 ''mu_power'', JNum (Finite 0)),
                               (utf16 ''beta_power'', JNum (Finite 0))]),
          (utf16 ''C4'', JObj [(utf16 ''mu_power'', JNum (Finite 0)),
                               (utf16 ''beta_power'', JNum (Finite 0))])]),
      (utf16 ''laterality_index'', JNum (Finite 0)), (utf16 ''mu_suppression'', JNum (Finite 0)),
      (utf16 ''error'', JStr (utf16 ''Feedback not running''))]"

text \<open>
  The body of a response is what the client reads from the text \<open>NextResponse.json\<close>
  writes; for a parsed document that is \<open>to_JSON\<close> of it.
\<close>

definition GET_status :: "server \<Rightarrow> response" where
  "GET_status s =
     (case files s statusPath of
        None \<Rightarrow> Response 200 idle_status
      | Some t \<Rightarrow>
          (case JSON_parse t of
             Inl e \<Rightarrow> Response 500 (json_error (utf16 ''Failed to read status''))
           | Inr v \<Rightarrow> Response 200 (to_JSON v)))"

definition GET_feedback :: "server \<Rightarrow> response" where
  "GET_feedback s =
     (case files s feedbackPath of
        None \<Rightarrow> Response 200 DISCONNECTED_STATE
      | Some t \<Rightarrow>
          (case JSON_parse t of
             Inl e \<Rightarrow> Response 500 (json_error (utf16 ''Failed to read feedback''))
           | Inr v \<Rightarrow> Response 200 (to_JSON v)))"

section \<open>The page: the start handler\<close>

text \<open>
  \<open>ExperimentConfig\<close> as declared; a \<open>number\<close> of the form is a finite number (the form
  replaces what does not parse by a fallback).
\<close>

record colors =
  left :: js_string
  right :: js_string

record timing =
  baseline :: rat
  cue :: rat
  mi :: rat
  rest_min :: rat
  rest_max :: rat

record blocks =
  num_blocks :: rat
  trials_per_block :: rat
  practice_trials :: rat
  break_duration :: rat

record ExperimentConfig =
  participant_id :: js_string
  session_number :: rat
  run_number :: rat
  device_frequency :: rat
  fullscreen :: bool
  screen :: rat
  show_feedback :: bool
  session_notes :: js_string
  colors :: colors
  timing :: timing
  blocks :: blocks

text \<open>The value the server parses from \<open>JSON.stringify(config)\<close>.\<close>

definition config_json :: "ExperimentConfig \<Rightarrow> json" where
  "config_json c = JObj
     [(utf16 ''participant_id'', JStr (participant_id c)),
      (utf16 ''session_number'', JNum (Finite (session_number c))),
      (utf16 ''run_number'', JNum (Finite (run_number c))),
      (utf16 ''device_frequency'', JNum (Finite (device_frequency c))),
      (utf16 ''fullscreen'', JBool (fullscreen c)),
      (utf16 ''screen'', JNum (Finite (screen c))),
      (utf16 ''show_feedback'', JBool (show_feedback c)),
      (utf16 ''notes'', JStr (session_notes c)),
      (utf16 ''colors'', JObj
         [(utf16 ''left'', JStr (left (colors c))), (utf16 ''right'', JStr (right (colors c)))]),
      (utf16 ''timing'', JObj
         [(utf16 ''baseline'', JNum (Finite (baseline (timing c)))),
          (utf16 ''cue'', JNum (Finite (cue (timing c)))),
          (utf16 ''mi'', JNum (Finite (mi (timing c)))),
          (utf16 ''rest_min'', JNum (Finite (rest_min (timing c)))),
          (utf16 ''rest_max'', JNum (Finite (rest_max (timing c))))]),
      (utf16 ''blocks'', JObj
         [(utf16 ''num_blocks'', JNum (Finite (num_blocks (blocks c)))),
          (utf16 ''trials_per_block'', JNum (Finite (trials_per_block (blocks c)))),
          (utf16 ''practice_trials'', JNum (Finite (practice_trials (blocks c)))),
          (utf16 ''break_duration'', JNum (Finite (break_duration (blocks c))))])]"

text \<open>
  The code units \<open>String.prototype.trim\<close> strips: the white space of ECMAScript (tab,
  vertical tab, form feed, space, no-break space, U+FEFF and the other space separators
  U+1680, U+2000 to U+200A, U+202F, U+205F, U+3000) and its line terminators (line feed,
  carriage return, U+2028, U+2029).
\<close>

definition js_whitespace :: "nat \<Rightarrow> bool" where
  "js_whitespace u =
     (u \<in> set [0x0009, 0x000A, 0x000B, 0x000C, 0x000D, 0x0020, 0x00A0, 0x1680,
                0x2000, 0x2001, 0x2002, 0x2003, 0x2004, 0x2005, 0x2006, 0x2007, 0x2008,
                0x2009, 0x200A, 0x2028, 0x2029, 0x202F, 0x205F, 0x3000, 0xFEFF])"

definition trim :: "js_string \<Rightarrow> js_string" where
  "trim s = rev (dropWhile js_whitespace (rev (dropWhile js_whitespace s)))"

text \<open>\<open>a % b\<close> on finite numbers: the sign of the dividend; \<open>NaN\<close> (\<open>None\<close>) for \<open>b = 0\<close>.\<close>

definition js_rem :: "rat \<Rightarrow> rat \<Rightarrow> rat option" where
  "js_rem a b =
     (if b = 0 then None
      else Some (a - b * of_int (if a / b < 0 then \<lceil>a / b\<rceil> else \<lfloor>a / b\<rfloor>)))"

text \<open>The state of the \<open>Home\<close> component that \<open>handleStart\<close> reads and sets.\<close>

record home =
  config :: ExperimentConfig
  status :: json
  isRunning :: bool
  error :: "js_string option"
  starting :: bool

text \<open>\<open>res.ok\<close> and \<open>data.error || "Failed to start session"\<close> (the route's errors are strings).\<close>

fun ok :: "response \<Rightarrow> bool" where
  "ok (Response n b) = (if n < 200 then False else n \<le> 299)"

fun error_text :: "response \<Rightarrow> js_string" where
  "error_text (Response n b) =
     (case read_prop (Some b) (utf16 ''error'') of
        Inr (Some (JStr m)) \<Rightarrow> if m = [] then utf16 ''Failed to start session'' else m
      | _ \<Rightarrow> utf16 ''Failed to start session'')"

text \<open>
  \<open>handleStart reaches evs (h, s)\<close>: the component and the server before the click;
  \<open>reaches\<close> says whether the fetch gets a response, \<open>evs\<close> is what the children do
  during the route's settle interval.
\<close>

definition handleStart :: "bool \<Rightarrow> event list \<Rightarrow> home \<times> server \<Rightarrow> home \<times> server" where
  "handleStart reaches evs hs =
     (let h = fst hs; s = snd hs in
      if trim (participant_id (config h)) = []
      then (h\<lparr>error := Some (utf16 ''Participant ID is required'')\<rparr>, s)
      else if js_rem (trials_per_block (blocks (config h))) 2 \<noteq> Some 0
      then (h\<lparr>error := Some (utf16 ''Trials per block must be even (balanced left/right)'')\<rparr>, s)
      else if rest_min (timing (config h)) \<ge> rest_max (timing (config h))
      then (h\<lparr>error := Some (utf16 ''Rest Min must be less than Rest Max'')\<rparr>, s)
      else
        (let h1 = h\<lparr>error := None, status := idle_status, starting := True\<rparr> in
         if reaches then
           (let rs = POST (JSON_stringify (config_json (config h))) evs s in
            if ok (fst rs)
            then (h1\<lparr>isRunning := True, starting := False\<rparr>, snd rs)
            else (h1\<lparr>error := Some (error_text (fst rs)), starting := False\<rparr>, snd rs))
         else (h1\<lparr>error := Some (utf16 ''Failed to connect to server''), starting := False\<rparr>, s)))"

section \<open>States and configurations used as examples\<close>

definition idle_server :: server where
  "idle_server = \<lparr>stimulusProcess = None, feedbackProcess = None, processError = None,
     processExited = False, calls = 0, stderrBuffer = (\<lambda>i. []), files = Map.empty,
     trace = []\<rparr>"

definition running_fields :: "(js_string \<times> json) list" where
  "running_fields =
     [(utf16 ''state'', JStr (utf16 ''running'')), (utf16 ''phase'', JStr (utf16 ''cue'')),
      (utf16 ''current_trial'', JNum (Finite 25)), (utf16 ''total_trials'', JNum (Finite 50)),
      (utf16 ''current_block'', JNum (Finite 1)), (utf16 ''total_blocks'', JNum (Finite 2)),
      (utf16 ''bad_trials'', JNum (Finite 3)),
      (utf16 ''elapsed_seconds'', JNum (Finite (125 / 2))),
      (utf16 ''output_file'', JStr (utf16 ''data/P001_MI_markers.csv''))]"

definition completed_fields :: "(js_string \<times> json) list" where
  "completed_fields =
     [(utf16 ''state'', JStr (utf16 ''completed'')), (utf16 ''phase'', JStr (utf16 ''none'')),
      (utf16 ''current_trial'', JNum (Finite 50)), (utf16 ''total_trials'', JNum (Finite 50)),
      (utf16 ''current_block'', JNum (Finite 2)), (utf16 ''total_blocks'', JNum (Finite 2)),
      (utf16 ''bad_trials'', JNum (Finite 3)), (utf16 ''elapsed_seconds'', JNum (Finite 900)),
      (utf16 ''output_file'', JStr (utf16 ''data/P001_MI_markers.csv''))]"

text \<open>A status document whose \<open>elapsed_seconds\<close> is written \<open>1e400\<close>.\<close>

definition overflow_fields :: "(js_string \<times> json) list" where
  "overflow_fields =
     [(utf16 ''state'', JStr (utf16 ''running'')), (utf16 ''elapsed_seconds'', JNum Infinity)]"

definition mid_session :: server where
  "mid_session =
     \<lparr>stimulusProcess = Some \<lparr>spawnargs = spawn_args scriptPath, killed = False\<rparr>,
      feedbackProcess = Some \<lparr>spawnargs = spawn_args feedbackScriptPath, killed = False\<rparr>,
      processError = None, processExited = False, calls = 1, stderrBuffer = (\<lambda>i. []),
      files = [statusPath \<mapsto> Serialized (JObj running_fields),
               feedbackPath \<mapsto> Serialized DISCONNECTED_STATE],
      trace = []\<rparr>"

definition finished_session :: server where
  "finished_session =
     mid_session\<lparr>files := [statusPath \<mapsto> Serialized (JObj completed_fields)]\<rparr>"

definition overflow_session :: server where
  "overflow_session =
     mid_session\<lparr>files := [statusPath \<mapsto> Serialized (JObj overflow_fields)]\<rparr>"

definition corrupt_session :: server where
  "corrupt_session =
     mid_session\<lparr>files := [statusPath \<mapsto> Malformed (utf16 ''Unexpected end of JSON input''),
                           feedbackPath \<mapsto> Malformed (utf16 ''Unexpected end of JSON input'')]\<rparr>"

text \<open>The state after a start with nothing yet from the feedback process.\<close>

definition started_session :: server where
  "started_session =
     mid_session\<lparr>files := [statusPath \<mapsto> Serialized (JObj running_fields)]\<rparr>"

text \<open>A session whose handle the exit of an earlier child has cleared.\<close>

definition untracked_session :: server where
  "untracked_session = mid_session\<lparr>stimulusProcess := None\<rparr>"

definition default_config :: ExperimentConfig where
  "default_config =
     \<lparr>participant_id = utf16 ''P001'', session_number = 1, run_number = 1,
      device_frequency = 250, fullscreen = False, screen = 0, show_feedback = False,
      session_notes = [],
      colors = \<lparr>left = utf16 ''#4A9FD9'', right = utf16 ''#E8B931''\<rparr>,
      timing = \<lparr>baseline = 2, cue = 1, mi = 4, rest_min = 2, rest_max = 3\<rparr>,
      blocks = \<lparr>num_blocks = 2, trials_per_block = 50, practice_trials = 10,
                break_duration = 120\<rparr>\<rparr>"

definition small_blocks :: "(js_string \<times> json) list" where
  "small_blocks =
     [(utf16 ''num_blocks'', JNum (Finite 2)), (utf16 ''trials_per_block'', JNum (Finite 50))]"

definition small_config :: "(js_string \<times> json) list" where
  "small_config =
     [(utf16 ''participant_id'', JStr (utf16 ''P001'')), (utf16 ''blocks'', JObj small_blocks)]"

definition no_blocks_config :: "(js_string \<times> json) list" where
  "no_blocks_config = [(utf16 ''participant_id'', JStr (utf16 ''P001''))]"

definition after_session :: server where
  "after_session =
     idle_server\<lparr>files := [configPath \<mapsto> Serialized (JObj small_config),
                           statusPath \<mapsto> Serialized (JObj completed_fields)]\<rparr>"

definition invalid_config :: ExperimentConfig where
  "invalid_config =
     default_config\<lparr>timing := \<lparr>baseline = 2, cue = 1, mi = 4, rest_min = 3, rest_max = 2\<rparr>,
       blocks := \<lparr>num_blocks = 2, trials_per_block = 51, practice_trials = 10,
                 break_duration = 120\<rparr>\<rparr>"

text \<open>An id of ideographic space, em space, U+FEFF, line separator, space and tab.\<close>

definition blank_config :: ExperimentConfig where
  "blank_config =
     default_config\<lparr>participant_id := [0x3000, 0x2003, 0xFEFF, 0x2028, 0x0020, 0x0009]\<rparr>"

definition fresh_home :: "ExperimentConfig \<Rightarrow> home" where
  "fresh_home c =
     \<lparr>config = c, status = idle_status, isRunning = False, error = None, starting = False\<rparr>"

section \<open>An invariant of the process handles\<close>

text \<open>A tracked handle is never one that \<open>kill\<close> was called on.\<close>

definition handles_live :: "server \<Rightarrow> bool" where
  "handles_live s =
     ((stimulusProcess s = None \<or> alive (stimulusProcess s))
      \<and> (feedbackProcess s = None \<or> alive (feedbackProcess s)))"

section \<open>Auxiliary lemmas\<close>

lemmas path_defs = tmpDir_def dataDir_def configPath_def statusPath_def feedbackPath_def

lemma paths_distinct [simp]:
  "statusPath \<noteq> configPath" "configPath \<noteq> statusPath"
  "statusPath \<noteq> feedbackPath" "feedbackPath \<noteq> statusPath"
  "configPath \<noteq> feedbackPath" "feedbackPath \<noteq> configPath"
  by (simp_all add: path_defs)

lemma utf16_eq_iff [simp]: "utf16 a = utf16 b \<longleftrightarrow> a = b"
  by (simp add: utf16_def inj_map_eq_map inj_on_def)

lemma utf16_eq_Nil_iff [simp]: "utf16 a = [] \<longleftrightarrow> a = []"
  by (simp add: utf16_def)

lemma map_of_to_JSON:
  "map_of (map (map_prod id to_JSON) kvs) k = map_option to_JSON (map_of kvs k)"
  by (induction kvs) auto

lemma to_JSON_aborted_status [simp]: "to_JSON aborted_status = aborted_status"
  by (simp add: aborted_status_def)

lemma files_writeFileSync [simp]: "files (writeFileSync p t s) = (files s)(p \<mapsto> t)"
  by (simp add: writeFileSync_def)

lemma files_kill_stimulus [simp]: "files (kill_stimulus s) = files s"
  by (simp add: kill_stimulus_def split: option.splits)

lemma files_kill_feedback [simp]: "files (kill_feedback s) = files s"
  by (simp add: kill_feedback_def split: option.splits)

lemma files_remove_feedback [simp]:
  "files (remove_feedback s) = (files s)(feedbackPath := None)"
  by (auto simp add: remove_feedback_def unlinkSync_def split: option.splits)

lemma not_terminal_iff:
  "not_terminal st \<longleftrightarrow>
     st \<noteq> Some (JStr (utf16 ''aborted'')) \<and> st \<noteq> Some (JStr (utf16 ''completed''))"
  by (simp add: not_terminal_def)

lemma exit_fallback_object:
  assumes "files s statusPath = Some (Serialized (JObj kvs))"
  shows "exit_fallback s =
     (if not_terminal (map_of kvs (utf16 ''state''))
      then writeFileSync statusPath (Serialized aborted_status) s else s)"
  using assms by (simp add: exit_fallback_def JSON_stringify_def)

lemma stimulus_exit_crash:
  assumes "code \<noteq> 0"
  shows "stimulus_exit i (Some code) s =
     (exit_fallback (s\<lparr>processExited := True,
        processError := Some (if last500 (stderrBuffer s i) = []
                              then utf16 (''Process exited with code '' @ show_int code)
                              else last500 (stderrBuffer s i))\<rparr>))\<lparr>stimulusProcess := None\<rparr>"
  using assms by (simp add: stimulus_exit_def Let_def)

lemma stimulus_exit_clean:
  assumes "code = None \<or> code = Some 0"
  shows "stimulus_exit i code s = s\<lparr>processExited := True, stimulusProcess := None\<rparr>"
  using assms by (auto simp add: stimulus_exit_def)

lemma DELETE_live:
  assumes "alive (stimulusProcess s)"
  shows "snd (DELETE s) =
     mark_aborted (read_status s) (remove_feedback (kill_feedback (kill_stimulus s)))"
  using assms by (simp add: DELETE_def Let_def)

lemma DELETE_idle:
  assumes "\<not> alive (stimulusProcess s)"
  shows "snd (DELETE s) = s"
  using assms by (simp add: DELETE_def)

lemma mark_aborted_object:
  "mark_aborted (JObj kvs) s =
     (if not_terminal (map_of kvs (utf16 ''state''))
      then writeFileSync statusPath (Serialized (to_JSON (aborted_copy (JObj kvs)))) s else s)"
  by (simp add: mark_aborted_def JSON_stringify_def)

lemma mark_aborted_null [simp]: "mark_aborted JNull s = s"
  by (simp add: mark_aborted_def)

lemma to_JSON_aborted_copy:
  "to_JSON (aborted_copy (JObj kvs)) =
     JObj (map (map_prod id to_JSON)
       (AList.update (utf16 ''phase'') (JStr (utf16 ''none''))
         (AList.update (utf16 ''state'') (JStr (utf16 ''aborted'')) kvs)))"
  by (simp add: aborted_copy_def)

lemma map_of_aborted_copy:
  "map_of (map (map_prod id to_JSON)
       (AList.update (utf16 ''phase'') (JStr (utf16 ''none''))
         (AList.update (utf16 ''state'') (JStr (utf16 ''aborted'')) kvs))) k =
     (if k = utf16 ''phase'' then Some (JStr (utf16 ''none''))
      else if k = utf16 ''state'' then Some (JStr (utf16 ''aborted''))
      else map_option to_JSON (map_of kvs k))"
  by (simp add: map_of_to_JSON update_conv')

lemma read_status_missing:
  assumes "files s statusPath = None \<or> (\<exists>m. files s statusPath = Some (Malformed m))"
  shows "read_status s = JNull"
  using assms by (auto simp add: read_status_def)

lemma exit_fallback_trace:
  "\<exists>new. trace (exit_fallback s) = trace s @ new \<and> list_all (\<lambda>e. \<not> is_Spawn e) new"
  by (auto simp add: exit_fallback_def writeFileSync_def split: option.splits sum.splits)

lemma handle_trace:
  "\<exists>new. trace (handle e s) = trace s @ new \<and> list_all (\<lambda>e. \<not> is_Spawn e) new"
proof (cases e)
  case (Stimulus_exit i code)
  show ?thesis
  proof (cases "code = None \<or> code = Some 0")
    case True
    then show ?thesis
      using Stimulus_exit by (simp add: stimulus_exit_clean)
  next
    case False
    then obtain c where c: "code = Some c" "c \<noteq> 0" by auto
    let ?s1 = "s\<lparr>processExited := True,
        processError := Some (if last500 (stderrBuffer s i) = []
                              then utf16 (''Process exited with code '' @ show_int c)
                              else last500 (stderrBuffer s i))\<rparr>"
    have "trace (handle e s) = trace (exit_fallback ?s1)"
      using Stimulus_exit c by (simp add: stimulus_exit_crash)
    moreover have "trace ?s1 = trace s" by simp
    ultimately show ?thesis
      using exit_fallback_trace [of ?s1] by metis
  qed
qed (simp_all add: stimulus_error_def)

lemma settle_trace:
  "\<exists>new. trace (settle evs s) = trace s @ new \<and> list_all (\<lambda>e. \<not> is_Spawn e) new"
proof (induction evs arbitrary: s)
  case Nil
  then show ?case by simp
next
  case (Cons e evs)
  obtain n1 where n1: "trace (handle e s) = trace s @ n1" "list_all (\<lambda>e. \<not> is_Spawn e) n1"
    using handle_trace by blast
  obtain n2 where n2: "trace (settle evs (handle e s)) = trace (handle e s) @ n2"
      "list_all (\<lambda>e. \<not> is_Spawn e) n2"
    using Cons.IH by blast
  have "trace (settle (e # evs) s) = trace s @ (n1 @ n2)"
    using n1 n2 by simp
  moreover have "list_all (\<lambda>e. \<not> is_Spawn e) (n1 @ n2)"
    using n1 n2 by simp
  ultimately show ?case by blast
qed

lemma initial_status_well_formed:
  assumes "map_of kvs (utf16 ''blocks'') = Some (JObj bs)"
    and "map_of bs (utf16 ''trials_per_block'') = Some t"
    and "map_of bs (utf16 ''num_blocks'') = Some n"
  shows "initial_status (JObj kvs) = Inr (JObj
     [(utf16 ''state'', JStr (utf16 ''practice'')), (utf16 ''phase'', JStr (utf16 ''none'')),
      (utf16 ''current_trial'', JNum (Finite 0)), (utf16 ''total_trials'', t),
      (utf16 ''current_block'', JNum (Finite 0)), (utf16 ''total_blocks'', n),
      (utf16 ''bad_trials'', JNum (Finite 0)), (utf16 ''elapsed_seconds'', JNum (Finite 0)),
      (utf16 ''output_file'', JStr [])])"
  using assms by (simp add: initial_status_def)

lemma POST_launches:
  assumes "\<not> alive (stimulusProcess s)"
    and "initial_status cfg = Inr st"
  shows "snd (POST (Serialized cfg) evs s) = settle evs (launch st (persist_config cfg s))"
  using assms by (simp add: POST_def Let_def)

lemma trace_launch:
  "trace (launch st (persist_config cfg s)) =
     trace s @ [MkDir tmpDir, MkDir dataDir,
       WriteFile configPath (JSON_stringify cfg), WriteFile statusPath (JSON_stringify st),
       Spawn ''python'' (spawn_args scriptPath), Spawn ''python'' (spawn_args feedbackScriptPath)]"
  by (simp add: launch_def persist_config_def spawn_feedback_def spawn_stimulus_def
      writeFileSync_def mkdirSync_def)

lemma files_launch:
  "files (launch st (persist_config cfg s)) =
     (files s)(configPath \<mapsto> JSON_stringify cfg, statusPath \<mapsto> JSON_stringify st)"
  by (simp add: launch_def persist_config_def spawn_feedback_def spawn_stimulus_def
      writeFileSync_def mkdirSync_def)

lemma js_rem_odd:
  assumes "odd n"
  shows "js_rem (of_int n) 2 \<noteq> Some 0"
proof
  assume "js_rem (of_int n) 2 = Some 0"
  then obtain k :: int where "(of_int n :: rat) - 2 * of_int k = 0"
    by (auto simp add: js_rem_def split: if_splits)
  then have "(of_int n :: rat) = of_int (2 * k)"
    by simp
  then have "n = 2 * k"
    by (simp only: of_int_eq_iff)
  then show False
    using assms by simp
qed

lemma dropWhile_all:
  "list_all P xs \<Longrightarrow> dropWhile P xs = []"
  by (induction xs) simp_all

lemma trim_blank:
  assumes "list_all js_whitespace p"
  shows "trim p = []"
  unfolding trim_def dropWhile_all [OF assms] by simp

lemma handles_live_idle: "handles_live idle_server"
  by (simp add: handles_live_def idle_server_def)

lemma handles_exit_fallback [simp]:
  "stimulusProcess (exit_fallback s) = stimulusProcess s"
  "feedbackProcess (exit_fallback s) = feedbackProcess s"
  by (simp_all add: exit_fallback_def writeFileSync_def split: option.splits sum.splits)

lemma handles_live_handle:
  "handles_live s \<Longrightarrow> handles_live (handle e s)"
  by (cases e)
    (auto simp add: handles_live_def stimulus_exit_def stimulus_error_def Let_def
      split: option.splits)

lemma handles_live_settle:
  "handles_live s \<Longrightarrow> handles_live (settle evs s)"
  by (induction evs arbitrary: s) (simp_all add: handles_live_handle)

lemma handles_live_launch: "handles_live (launch st s)"
  by (simp add: handles_live_def launch_def spawn_feedback_def spawn_stimulus_def)

lemma handles_live_persist_config:
  "handles_live s \<Longrightarrow> handles_live (persist_config cfg s)"
  by (simp add: handles_live_def persist_config_def writeFileSync_def mkdirSync_def)

lemma handles_live_POST:
  assumes "handles_live s"
  shows "handles_live (snd (POST body evs s))"
proof (cases "alive (stimulusProcess s)")
  case True
  then show ?thesis
    using assms by (simp add: POST_def)
next
  case False
  show ?thesis
  proof (cases "JSON_parse body")
    case (Inl e)
    then show ?thesis
      using False assms by (simp add: POST_def)
  next
    case (Inr cfg)
    show ?thesis
    proof (cases "initial_status cfg")
      case (Inl e)
      then show ?thesis
        using False Inr assms by (simp add: POST_def Let_def handles_live_persist_config)
    next
      case (Inr st)
      then show ?thesis
        using False \<open>JSON_parse body = Inr cfg\<close>
        by (simp add: POST_def Let_def handles_live_settle handles_live_launch)
    qed
  qed
qed

lemma handles_mark_aborted [simp]:
  "stimulusProcess (mark_aborted v s) = stimulusProcess s"
  "feedbackProcess (mark_aborted v s) = feedbackProcess s"
  by (simp_all add: mark_aborted_def writeFileSync_def split: sum.splits)

lemma handles_remove_feedback [simp]:
  "stimulusProcess (remove_feedback s) = stimulusProcess s"
  "feedbackProcess (remove_feedback s) = feedbackProcess s"
  by (simp_all add: remove_feedback_def unlinkSync_def split: option.splits)

lemma handles_live_DELETE:
  "handles_live s \<Longrightarrow> handles_live (snd (DELETE s))"
  by (auto simp add: DELETE_def Let_def handles_live_def kill_feedback_def kill_stimulus_def
      split: option.splits)

section \<open>The claims\<close>

text \<open>
  C1. The exit handler of the stimulus process (of any call of \<open>POST\<close>), fired with
  an exit code other than zero while \<open>status.json\<close> holds a document whose \<open>state\<close>
  is \<open>completed\<close> or \<open>aborted\<close>, leaves every file as it is and performs no file
  operation.
\<close>

theorem exit_keeps_terminal_status:
  assumes "files s statusPath = Some (Serialized (JObj kvs))"
    and "map_of kvs (utf16 ''state'') = Some (JStr st)"
    and "st = utf16 ''completed'' \<or> st = utf16 ''aborted''"
    and "code \<noteq> 0"
  shows "files (handle (Stimulus_exit i (Some code)) s) = files s
       \<and> trace (handle (Stimulus_exit i (Some code)) s) = trace s"
proof -
  have "\<not> not_terminal (map_of kvs (utf16 ''state''))"
    using assms(2,3) by (auto simp add: not_terminal_def)
  then show ?thesis
    using assms(1,4)
    by (simp add: stimulus_exit_crash exit_fallback_object [where kvs = kvs])
qed

theorem exit_keeps_terminal_status_witness:
  "files finished_session statusPath = Some (Serialized (JObj completed_fields))
   \<and> map_of completed_fields (utf16 ''state'') = Some (JStr (utf16 ''completed''))
   \<and> files (handle (Stimulus_exit 0 (Some 1)) finished_session) = files finished_session
   \<and> trace (handle (Stimulus_exit 0 (Some 1)) finished_session) = trace finished_session"
  using exit_keeps_terminal_status
    [of finished_session completed_fields "utf16 ''completed''" 1 0]
  by (simp add: finished_session_def completed_fields_def)

text \<open>
  C2. While the tracked stimulus process is alive, \<open>POST\<close> answers 409 with the
  error \<open>A session is already running\<close> and returns the state it was given: no file
  is written, no operation is performed.
\<close>

theorem start_conflict:
  assumes "alive (stimulusProcess s)"
  shows "POST body evs s =
     (Response 409 (json_error (utf16 ''A session is already running'')), s)"
  using assms by (simp add: POST_def)

theorem start_conflict_witness:
  "alive (stimulusProcess mid_session)
   \<and> POST (Serialized (JObj [])) [] mid_session
       = (Response 409 (json_error (utf16 ''A session is already running'')), mid_session)"
  using start_conflict [of mid_session "Serialized (JObj [])" "[]"]
  by (simp add: mid_session_def)

text \<open>
  C3, as amended. With a live session and a status document (a JSON object) whose state
  is neither \<open>aborted\<close> nor \<open>completed\<close>, \<open>DELETE\<close> leaves in \<open>status.json\<close> a
  document that maps \<open>state\<close> to \<open>aborted\<close>, \<open>phase\<close> to \<open>none\<close>, and every
  other key to what \<open>JSON.stringify\<close> writes for its value: the value itself whenever
  it is written back as it was read (no number beyond the double range, no negative
  zero in it), \<open>null\<close> for an infinity. \<open>feedback.json\<close> is gone, and \<open>DELETE\<close>
  answers success from any state \<open>t\<close>.
\<close>

theorem stop_preserves_written_fields:
  assumes "alive (stimulusProcess s)"
    and "files s statusPath = Some (Serialized (JObj kvs))"
    and "map_of kvs (utf16 ''state'') \<noteq> Some (JStr (utf16 ''aborted''))"
    and "map_of kvs (utf16 ''state'') \<noteq> Some (JStr (utf16 ''completed''))"
  shows "\<exists>kvs'. files (snd (DELETE s)) statusPath = Some (Serialized (JObj kvs'))
           \<and> map_of kvs' (utf16 ''state'') = Some (JStr (utf16 ''aborted''))
           \<and> map_of kvs' (utf16 ''phase'') = Some (JStr (utf16 ''none''))
           \<and> (\<forall>k. k \<noteq> utf16 ''state'' \<and> k \<noteq> utf16 ''phase'' \<longrightarrow>
                 map_of kvs' k = map_option to_JSON (map_of kvs k))
           \<and> (\<forall>k v. k \<noteq> utf16 ''state'' \<and> k \<noteq> utf16 ''phase''
                 \<and> map_of kvs k = Some v \<and> to_JSON v = v \<longrightarrow> map_of kvs' k = Some v)
           \<and> files (snd (DELETE s)) feedbackPath = None
           \<and> fst (DELETE t) = Response 200 json_success"
proof -
  let ?kvs' = "map (map_prod id to_JSON)
       (AList.update (utf16 ''phase'') (JStr (utf16 ''none''))
         (AList.update (utf16 ''state'') (JStr (utf16 ''aborted'')) kvs))"
  have r: "read_status s = JObj kvs"
    using assms(2) by (simp add: read_status_def)
  have nt: "not_terminal (map_of kvs (utf16 ''state''))"
    using assms(3,4) by (simp add: not_terminal_iff)
  have "files (snd (DELETE s)) =
      (files s)(feedbackPath := None, statusPath \<mapsto> Serialized (JObj ?kvs'))"
    using assms(1) r nt by (simp add: DELETE_live mark_aborted_object to_JSON_aborted_copy)
  then have f: "files (snd (DELETE s)) statusPath = Some (Serialized (JObj ?kvs'))"
    and g: "files (snd (DELETE s)) feedbackPath = None"
    by simp_all
  have st: "map_of ?kvs' (utf16 ''state'') = Some (JStr (utf16 ''aborted''))"
    and ph: "map_of ?kvs' (utf16 ''phase'') = Some (JStr (utf16 ''none''))"
    by (simp_all add: map_of_aborted_copy)
  have others: "map_of ?kvs' k = map_option to_JSON (map_of kvs k)"
    if "k \<noteq> utf16 ''state'' \<and> k \<noteq> utf16 ''phase''" for k
    using that by (simp add: map_of_aborted_copy)
  have kept: "map_of ?kvs' k = Some v"
    if "k \<noteq> utf16 ''state'' \<and> k \<noteq> utf16 ''phase'' \<and> map_of kvs k = Some v \<and> to_JSON v = v"
    for k v
    using that others [of k] by simp
  have "fst (DELETE t) = Response 200 json_success"
    by (simp add: DELETE_def)
  with f g st ph others kept show ?thesis
    by blast
qed

theorem stop_preserves_written_fields_witness:
  "alive (stimulusProcess mid_session)
   \<and> files mid_session statusPath = Some (Serialized (JObj running_fields))
   \<and> map_of running_fields (utf16 ''state'') = Some (JStr (utf16 ''running''))
   \<and> map_of running_fields (utf16 ''current_trial'') = Some (JNum (Finite 25))
   \<and> to_JSON (JNum (Finite 25)) = JNum (Finite 25)
   \<and> (\<exists>kvs'. files (snd (DELETE mid_session)) statusPath = Some (Serialized (JObj kvs'))
         \<and> map_of kvs' (utf16 ''state'') = Some (JStr (utf16 ''aborted''))
         \<and> map_of kvs' (utf16 ''phase'') = Some (JStr (utf16 ''none''))
         \<and> map_of kvs' (utf16 ''current_trial'') = Some (JNum (Finite 25))
         \<and> files (snd (DELETE mid_session)) feedbackPath = None
         \<and> fst (DELETE idle_server) = Response 200 json_success)"
proof -
  have a: "alive (stimulusProcess mid_session)"
    and b: "files mid_session statusPath = Some (Serialized (JObj running_fields))"
    by (simp_all add: mid_session_def)
  have c: "map_of running_fields (utf16 ''state'') \<noteq> Some (JStr (utf16 ''aborted''))"
    and d: "map_of running_fields (utf16 ''state'') \<noteq> Some (JStr (utf16 ''completed''))"
    and e: "map_of running_fields (utf16 ''state'') = Some (JStr (utf16 ''running''))"
    and f: "map_of running_fields (utf16 ''current_trial'') = Some (JNum (Finite 25))"
    by (simp_all add: running_fields_def)
  have g: "to_JSON (JNum (Finite 25)) = JNum (Finite 25)"
    and h: "utf16 ''current_trial'' \<noteq> utf16 ''state''"
      "utf16 ''current_trial'' \<noteq> utf16 ''phase''"
    by simp_all
  from stop_preserves_written_fields [OF a b c d, of idle_server]
  obtain kvs' where k:
    "files (snd (DELETE mid_session)) statusPath = Some (Serialized (JObj kvs'))"
    "map_of kvs' (utf16 ''state'') = Some (JStr (utf16 ''aborted''))"
    "map_of kvs' (utf16 ''phase'') = Some (JStr (utf16 ''none''))"
    "\<forall>k v. k \<noteq> utf16 ''state'' \<and> k \<noteq> utf16 ''phase''
        \<and> map_of running_fields k = Some v \<and> to_JSON v = v \<longrightarrow> map_of kvs' k = Some v"
    "files (snd (DELETE mid_session)) feedbackPath = None"
    "fst (DELETE idle_server) = Response 200 json_success"
    by blast
  from k(4) f g h have "map_of kvs' (utf16 ''current_trial'') = Some (JNum (Finite 25))"
    by blast
  with a b e f g k show ?thesis
    by blast
qed

text \<open>
  The claim as written fails for a document with a numeral beyond the double range:
  \<open>elapsed_seconds\<close>, read as infinity, is \<open>null\<close> after the stop.
\<close>

theorem stop_overflow_counterexample:
  "alive (stimulusProcess overflow_session)
   \<and> files overflow_session statusPath = Some (Serialized (JObj overflow_fields))
   \<and> read_prop (Some (JObj overflow_fields)) (utf16 ''state'') = Inr (Some (JStr (utf16 ''running'')))
   \<and> read_prop (Some (JObj overflow_fields)) (utf16 ''elapsed_seconds'') = Inr (Some (JNum Infinity))
   \<and> files (snd (DELETE overflow_session)) statusPath =
       Some (Serialized (JObj
         [(utf16 ''state'', JStr (utf16 ''aborted'')), (utf16 ''elapsed_seconds'', JNull),
          (utf16 ''phase'', JStr (utf16 ''none''))]))"
  by (simp add: overflow_session_def mid_session_def overflow_fields_def DELETE_live
      read_status_def mark_aborted_object not_terminal_def aborted_copy_def)

text \<open>
  C4, as amended. What termination leaves in \<open>status.json\<close> is a function of the
  document found there and of the cause. A document already \<open>completed\<close> or
  \<open>aborted\<close> stays as it is on both paths. Otherwise the stop of a live session writes
  the copy with \<open>state\<close> and \<open>phase\<close> replaced, in which every other member reads as
  \<open>JSON.stringify\<close> writes it, and an exit with a code other than zero (whether or not
  a handle is tracked) writes the zeroed \<open>aborted\<close> document.
\<close>

theorem reconcile_by_cause:
  assumes "files s statusPath = Some (Serialized (JObj kvs))"
  shows "files (snd (DELETE s)) statusPath =
           Some (Serialized
             (if alive (stimulusProcess s) \<and> not_terminal (map_of kvs (utf16 ''state''))
              then to_JSON (aborted_copy (JObj kvs)) else JObj kvs))
       \<and> files (handle (Stimulus_exit i code) s) statusPath =
           Some (Serialized
             (if code \<noteq> None \<and> code \<noteq> Some 0 \<and> not_terminal (map_of kvs (utf16 ''state''))
              then aborted_status else JObj kvs))
       \<and> (\<forall>k. k \<noteq> utf16 ''state'' \<and> k \<noteq> utf16 ''phase'' \<longrightarrow>
             read_prop (Some (to_JSON (aborted_copy (JObj kvs)))) k =
               Inr (map_option to_JSON (map_of kvs k)))
       \<and> read_prop (Some (to_JSON (aborted_copy (JObj kvs)))) (utf16 ''state'')
           = Inr (Some (JStr (utf16 ''aborted'')))
       \<and> read_prop (Some (to_JSON (aborted_copy (JObj kvs)))) (utf16 ''phase'')
           = Inr (Some (JStr (utf16 ''none'')))"
proof -
  have r: "read_status s = JObj kvs"
    using assms by (simp add: read_status_def)
  have stop: "files (snd (DELETE s)) statusPath =
           Some (Serialized
             (if alive (stimulusProcess s) \<and> not_terminal (map_of kvs (utf16 ''state''))
              then to_JSON (aborted_copy (JObj kvs)) else JObj kvs))"
  proof (cases "alive (stimulusProcess s)")
    case True
    then show ?thesis
      using assms r by (simp add: DELETE_live mark_aborted_object)
  next
    case False
    then show ?thesis
      using assms by (simp add: DELETE_idle)
  qed
  have crash: "files (handle (Stimulus_exit i code) s) statusPath =
           Some (Serialized
             (if code \<noteq> None \<and> code \<noteq> Some 0 \<and> not_terminal (map_of kvs (utf16 ''state''))
              then aborted_status else JObj kvs))"
  proof (cases "code = None \<or> code = Some 0")
    case True
    then show ?thesis
      using assms by (auto simp add: stimulus_exit_clean)
  next
    case False
    then obtain c where c: "code = Some c" "c \<noteq> 0"
      by auto
    then show ?thesis
      using assms by (simp add: stimulus_exit_crash exit_fallback_object [where kvs = kvs])
  qed
  have copy: "read_prop (Some (to_JSON (aborted_copy (JObj kvs)))) k =
      Inr (if k = utf16 ''phase'' then Some (JStr (utf16 ''none''))
           else if k = utf16 ''state'' then Some (JStr (utf16 ''aborted''))
           else map_option to_JSON (map_of kvs k))" for k
    by (simp only: to_JSON_aborted_copy read_prop.simps map_of_aborted_copy)
  show ?thesis
    using stop crash by (simp add: copy)
qed

theorem reconcile_by_cause_witness:
  "files untracked_session statusPath = Some (Serialized (JObj running_fields))
   \<and> not_terminal (map_of running_fields (utf16 ''state''))
   \<and> files (handle (Stimulus_exit 0 (Some 1)) untracked_session) statusPath
       = Some (Serialized aborted_status)
   \<and> files (snd (DELETE untracked_session)) statusPath
       = Some (Serialized (JObj running_fields))
   \<and> files (snd (DELETE mid_session)) statusPath
       = Some (Serialized (to_JSON (aborted_copy (JObj running_fields))))
   \<and> read_prop (Some (to_JSON (aborted_copy (JObj running_fields)))) (utf16 ''current_trial'')
       = Inr (Some (JNum (Finite 25)))"
  using reconcile_by_cause [of untracked_session running_fields 0 "Some 1"]
    reconcile_by_cause [of mid_session running_fields 0 "Some 1"]
  by (simp add: untracked_session_def mid_session_def running_fields_def not_terminal_def)

text \<open>
  The claim as written fails on the exit path: a session at trial 25 whose stimulus
  process exits with code 1 is left with the zeroed document.
\<close>

theorem exit_resets_counters_counterexample:
  "files mid_session statusPath = Some (Serialized (JObj running_fields))
   \<and> read_prop (Some (JObj running_fields)) (utf16 ''current_trial'')
       = Inr (Some (JNum (Finite 25)))
   \<and> files (handle (Stimulus_exit 0 (Some 1)) mid_session) statusPath
       = Some (Serialized aborted_status)
   \<and> read_prop (Some aborted_status) (utf16 ''current_trial'') = Inr (Some (JNum (Finite 0)))"
  by (simp add: mid_session_def running_fields_def stimulus_exit_crash
      exit_fallback_object [where kvs = running_fields] not_terminal_def aborted_status_def)

text \<open>
  C5. With no live session and a body whose \<open>blocks\<close> object has
  \<open>trials_per_block\<close> and \<open>num_blocks\<close>, the operations of \<open>POST\<close> begin with the two
  directories, the write of \<open>config.json\<close>, the write of the \<open>practice\<close> document
  (totals from the body, every counter zero, no output file), and only then the two
  spawns; nothing that follows is a spawn. When nothing happens during the settle interval
  the two files hold exactly these documents afterwards. Both are written verbatim when
  the body holds only values that are written back as read.
\<close>

theorem start_writes_before_spawn:
  assumes "\<not> alive (stimulusProcess s)"
    and "map_of kvs (utf16 ''blocks'') = Some (JObj bs)"
    and "map_of bs (utf16 ''trials_per_block'') = Some t"
    and "map_of bs (utf16 ''num_blocks'') = Some n"
    and "st = JObj
     [(utf16 ''state'', JStr (utf16 ''practice'')), (utf16 ''phase'', JStr (utf16 ''none'')),
      (utf16 ''current_trial'', JNum (Finite 0)), (utf16 ''total_trials'', t),
      (utf16 ''current_block'', JNum (Finite 0)), (utf16 ''total_blocks'', n),
      (utf16 ''bad_trials'', JNum (Finite 0)), (utf16 ''elapsed_seconds'', JNum (Finite 0)),
      (utf16 ''output_file'', JStr [])]"
  shows "\<exists>later. trace (snd (POST (Serialized (JObj kvs)) evs s)) =
            trace s @ [MkDir tmpDir, MkDir dataDir,
              WriteFile configPath (JSON_stringify (JObj kvs)),
              WriteFile statusPath (JSON_stringify st),
              Spawn ''python'' (spawn_args scriptPath),
              Spawn ''python'' (spawn_args feedbackScriptPath)] @ later
          \<and> list_all (\<lambda>e. \<not> is_Spawn e) later
          \<and> files (snd (POST (Serialized (JObj kvs)) [] s)) =
              (files s)(configPath \<mapsto> JSON_stringify (JObj kvs),
                        statusPath \<mapsto> JSON_stringify st)
          \<and> (to_JSON t = t \<and> to_JSON n = n \<longrightarrow> JSON_stringify st = Serialized st)
          \<and> (to_JSON (JObj kvs) = JObj kvs \<longrightarrow>
                JSON_stringify (JObj kvs) = Serialized (JObj kvs)
                \<and> JSON_stringify st = Serialized st)"
proof -
  have init: "initial_status (JObj kvs) = Inr st"
    using assms(2-5) by (simp add: initial_status_well_formed)
  have run: "snd (POST (Serialized (JObj kvs)) es s) =
      settle es (launch st (persist_config (JObj kvs) s))" for es
    using assms(1) init by (rule POST_launches)
  obtain later where later:
    "trace (settle evs (launch st (persist_config (JObj kvs) s))) =
       trace (launch st (persist_config (JObj kvs) s)) @ later"
    "list_all (\<lambda>e. \<not> is_Spawn e) later"
    using settle_trace by blast
  have tr: "trace (snd (POST (Serialized (JObj kvs)) evs s)) =
            trace s @ [MkDir tmpDir, MkDir dataDir,
              WriteFile configPath (JSON_stringify (JObj kvs)),
              WriteFile statusPath (JSON_stringify st),
              Spawn ''python'' (spawn_args scriptPath),
              Spawn ''python'' (spawn_args feedbackScriptPath)] @ later"
    using later(1) by (simp add: run trace_launch)
  have fl: "files (snd (POST (Serialized (JObj kvs)) [] s)) =
              (files s)(configPath \<mapsto> JSON_stringify (JObj kvs),
                        statusPath \<mapsto> JSON_stringify st)"
    by (simp add: run files_launch)
  have copied: "JSON_stringify st = Serialized st" if "to_JSON t = t \<and> to_JSON n = n"
    using that by (simp add: assms(5) JSON_stringify_def)
  have members: "to_JSON v = v"
    if "to_JSON (JObj ps) = JObj ps" and "map_of ps k = Some v" for ps k v
  proof -
    have "map_option to_JSON (map_of ps k) = map_of ps k"
      using that(1) map_of_to_JSON [of ps k] by simp
    then show ?thesis
      using that(2) by simp
  qed
  have whole: "JSON_stringify (JObj kvs) = Serialized (JObj kvs)
      \<and> JSON_stringify st = Serialized st" if w: "to_JSON (JObj kvs) = JObj kvs"
  proof -
    have "to_JSON (JObj bs) = JObj bs"
      using members [OF w assms(2)] .
    then have "to_JSON t = t \<and> to_JSON n = n"
      using members assms(3,4) by blast
    then show ?thesis
      using w copied by (simp add: JSON_stringify_def)
  qed
  show ?thesis
    using tr later(2) fl copied whole by blast
qed

theorem start_writes_before_spawn_witness:
  "\<not> alive (stimulusProcess idle_server)
   \<and> map_of small_config (utf16 ''blocks'') = Some (JObj small_blocks)
   \<and> map_of small_blocks (utf16 ''trials_per_block'') = Some (JNum (Finite 50))
   \<and> map_of small_blocks (utf16 ''num_blocks'') = Some (JNum (Finite 2))
   \<and> to_JSON (JObj small_config) = JObj small_config
   \<and> (\<exists>later. trace (snd (POST (Serialized (JObj small_config)) [Stimulus_exit 0 (Some 1)]
            idle_server)) =
          trace idle_server @ [MkDir tmpDir, MkDir dataDir,
           WriteFile configPath (Serialized (JObj small_config)),
           WriteFile statusPath (Serialized (JObj
             [(utf16 ''state'', JStr (utf16 ''practice'')),
              (utf16 ''phase'', JStr (utf16 ''none'')),
              (utf16 ''current_trial'', JNum (Finite 0)),
              (utf16 ''total_trials'', JNum (Finite 50)),
              (utf16 ''current_block'', JNum (Finite 0)),
              (utf16 ''total_blocks'', JNum (Finite 2)),
              (utf16 ''bad_trials'', JNum (Finite 0)),
              (utf16 ''elapsed_seconds'', JNum (Finite 0)),
              (utf16 ''output_file'', JStr [])])),
           Spawn ''python'' (spawn_args scriptPath),
           Spawn ''python'' (spawn_args feedbackScriptPath)] @ later
          \<and> list_all (\<lambda>e. \<not> is_Spawn e) later)"
proof -
  have a: "\<not> alive (stimulusProcess idle_server)"
    by (simp add: idle_server_def)
  have b: "map_of small_config (utf16 ''blocks'') = Some (JObj small_blocks)"
    by (simp add: small_config_def)
  have c: "map_of small_blocks (utf16 ''trials_per_block'') = Some (JNum (Finite 50))"
    and d: "map_of small_blocks (utf16 ''num_blocks'') = Some (JNum (Finite 2))"
    by (simp_all add: small_blocks_def)
  have w: "to_JSON (JObj small_config) = JObj small_config"
    by (simp add: small_config_def small_blocks_def)
  from start_writes_before_spawn [OF a b c d refl, of "[Stimulus_exit 0 (Some 1)]"] w
  show ?thesis
    using a b c d by force
qed

text \<open>
  C6, as amended. \<open>handleStart\<close> on a config whose \<open>trials_per_block\<close> is an odd
  integer, or whose \<open>rest_min\<close> is not below \<open>rest_max\<close>, sets one of its three
  validation errors and sends no request: the server state is the one before the click.
\<close>

theorem handleStart_rejects_invalid:
  assumes "(\<exists>n. trials_per_block (blocks (config h)) = of_int n \<and> odd n)
           \<or> rest_min (timing (config h)) \<ge> rest_max (timing (config h))"
  shows "snd (handleStart reaches evs (h, s)) = s
       \<and> (\<exists>m \<in> set [utf16 ''Participant ID is required'',
                       utf16 ''Trials per block must be even (balanced left/right)'',
                       utf16 ''Rest Min must be less than Rest Max''].
             fst (handleStart reaches evs (h, s)) = h\<lparr>error := Some m\<rparr>)"
  using assms
proof
  assume "\<exists>n. trials_per_block (blocks (config h)) = of_int n \<and> odd n"
  then have "js_rem (trials_per_block (blocks (config h))) 2 \<noteq> Some 0"
    using js_rem_odd by auto
  then show ?thesis
    by (simp add: handleStart_def Let_def)
next
  assume "rest_min (timing (config h)) \<ge> rest_max (timing (config h))"
  then show ?thesis
    by (simp add: handleStart_def Let_def)
qed

theorem handleStart_rejects_invalid_witness:
  "trials_per_block (blocks (config (fresh_home invalid_config))) = of_int 51 \<and> odd (51::int)
   \<and> snd (handleStart True [] (fresh_home invalid_config, idle_server)) = idle_server
   \<and> (\<exists>m \<in> set [utf16 ''Participant ID is required'',
                   utf16 ''Trials per block must be even (balanced left/right)'',
                   utf16 ''Rest Min must be less than Rest Max''].
         fst (handleStart True [] (fresh_home invalid_config, idle_server))
           = (fresh_home invalid_config)\<lparr>error := Some m\<rparr>)"
proof -
  have a: "trials_per_block (blocks (config (fresh_home invalid_config))) = of_int 51 \<and> odd (51::int)"
    by (simp add: fresh_home_def invalid_config_def)
  then have "(\<exists>n. trials_per_block (blocks (config (fresh_home invalid_config))) = of_int n \<and> odd n)
           \<or> rest_min (timing (config (fresh_home invalid_config)))
               \<ge> rest_max (timing (config (fresh_home invalid_config)))"
    by blast
  from handleStart_rejects_invalid [OF this, of True "[]" idle_server] a
  show ?thesis by blast
qed

text \<open>
  The claim as written fails on the route: \<open>POST\<close> with 51 trials per block
  and a rest range of 3 to 2 answers success and has spawned the stimulus process.
\<close>

theorem route_accepts_invalid_config_counterexample:
  "trials_per_block (blocks invalid_config) = 51
   \<and> rest_min (timing invalid_config) \<ge> rest_max (timing invalid_config)
   \<and> fst (POST (JSON_stringify (config_json invalid_config)) [] idle_server)
       = Response 200 json_success
   \<and> stimulusProcess (snd (POST (JSON_stringify (config_json invalid_config)) [] idle_server))
       = Some \<lparr>spawnargs = spawn_args scriptPath, killed = False\<rparr>
   \<and> Spawn ''python'' (spawn_args scriptPath)
       \<in> set (trace (snd (POST (JSON_stringify (config_json invalid_config)) [] idle_server)))"
  by (simp add: invalid_config_def default_config_def idle_server_def POST_def config_json_def
      JSON_stringify_def initial_status_def launch_def persist_config_def spawn_feedback_def
      spawn_stimulus_def writeFileSync_def mkdirSync_def Let_def)

text \<open>
  C7, as amended. Each read on its own: the status route answers the idle status when
  \<open>status.json\<close> is absent and a 500 error when it does not parse; the feedback route
  answers the disconnected snapshot when \<open>feedback.json\<close> is absent and a 500 error
  when it does not parse.
\<close>

theorem reads_of_missing_or_corrupt:
  "(files s statusPath = None \<longrightarrow> GET_status s = Response 200 idle_status)
   \<and> (files s statusPath = Some (Malformed m) \<longrightarrow>
        GET_status s = Response 500 (json_error (utf16 ''Failed to read status'')))
   \<and> (files s feedbackPath = None \<longrightarrow> GET_feedback s = Response 200 DISCONNECTED_STATE)
   \<and> (files s feedbackPath = Some (Malformed m') \<longrightarrow>
        GET_feedback s = Response 500 (json_error (utf16 ''Failed to read feedback'')))"
  by (simp add: GET_status_def GET_feedback_def)

theorem reads_of_missing_or_corrupt_witness:
  "files started_session statusPath = Some (Serialized (JObj running_fields))
   \<and> files started_session feedbackPath = None
   \<and> GET_feedback started_session = Response 200 DISCONNECTED_STATE
   \<and> files idle_server statusPath = None
   \<and> GET_status idle_server = Response 200 idle_status
   \<and> files corrupt_session statusPath = Some (Malformed (utf16 ''Unexpected end of JSON input''))
   \<and> files corrupt_session feedbackPath = Some (Malformed (utf16 ''Unexpected end of JSON input''))
   \<and> GET_status corrupt_session = Response 500 (json_error (utf16 ''Failed to read status''))
   \<and> GET_feedback corrupt_session
       = Response 500 (json_error (utf16 ''Failed to read feedback''))"
  using reads_of_missing_or_corrupt [of started_session]
    reads_of_missing_or_corrupt [of idle_server]
    reads_of_missing_or_corrupt [of corrupt_session
      "utf16 ''Unexpected end of JSON input''" "utf16 ''Unexpected end of JSON input''"]
  by (simp add: started_session_def idle_server_def corrupt_session_def mid_session_def)

text \<open>
  The claim as written fails for a file that does not parse: the status route
  answers 500.
\<close>

theorem status_read_corrupt_counterexample:
  "files corrupt_session statusPath = Some (Malformed (utf16 ''Unexpected end of JSON input''))
   \<and> GET_status corrupt_session = Response 500 (json_error (utf16 ''Failed to read status''))
   \<and> GET_status corrupt_session \<noteq> Response 200 idle_status"
  by (simp add: corrupt_session_def mid_session_def GET_status_def)

text \<open>
  C8. A body that parses to an object without \<open>blocks\<close> makes \<open>POST\<close> answer
  500 with the message of the \<open>TypeError\<close>, after \<open>config.json\<close> has been
  overwritten with that body; \<open>status.json\<close> is not written and nothing is spawned.
\<close>

theorem start_error_after_config_write:
  assumes "\<not> alive (stimulusProcess s)"
    and "map_of kvs (utf16 ''blocks'') = None"
  shows "POST (Serialized (JObj kvs)) evs s =
           (Response 500 (json_error
              (utf16 ''Cannot read properties of undefined (reading ''
               @ quoted (utf16 ''trials_per_block'') @ utf16 '')'')),
            persist_config (JObj kvs) s)
       \<and> files (persist_config (JObj kvs) s) = (files s)(configPath \<mapsto> JSON_stringify (JObj kvs))
       \<and> trace (persist_config (JObj kvs) s) =
           trace s @ [MkDir tmpDir, MkDir dataDir, WriteFile configPath (JSON_stringify (JObj kvs))]"
  using assms
  by (simp add: POST_def initial_status_def persist_config_def writeFileSync_def mkdirSync_def)

theorem start_error_after_config_write_witness:
  "\<not> alive (stimulusProcess after_session)
   \<and> map_of no_blocks_config (utf16 ''blocks'') = None
   \<and> files after_session configPath = Some (Serialized (JObj small_config))
   \<and> fst (POST (Serialized (JObj no_blocks_config)) [] after_session)
       = Response 500 (json_error
           (utf16 ''Cannot read properties of undefined (reading 'trials_per_block')''))
   \<and> files (snd (POST (Serialized (JObj no_blocks_config)) [] after_session)) configPath
       = Some (Serialized (JObj no_blocks_config))"
  using start_error_after_config_write [of after_session no_blocks_config "[]"]
  by (simp add: after_session_def idle_server_def no_blocks_config_def quoted_def
      JSON_stringify_def utf16_def)

text \<open>
  C9. With a live stimulus process and a \<open>status.json\<close> that is absent or does not
  parse, \<open>DELETE\<close> answers success, kills what is tracked, clears both handles and
  removes \<open>feedback.json\<close>; \<open>status.json\<close> is as before, and the only operations
  are the kills and the unlink. (\<open>handles_live\<close> holds in every state the routes and
  handlers produce from the initial one.)
\<close>

theorem stop_without_status:
  assumes "stimulusProcess s = Some c" and "\<not> killed c"
    and "handles_live s"
    and "files s statusPath = None \<or> (\<exists>m. files s statusPath = Some (Malformed m))"
  shows "fst (DELETE s) = Response 200 json_success
       \<and> stimulusProcess (snd (DELETE s)) = None
       \<and> feedbackProcess (snd (DELETE s)) = None
       \<and> files (snd (DELETE s)) feedbackPath = None
       \<and> files (snd (DELETE s)) statusPath = files s statusPath
       \<and> trace (snd (DELETE s)) =
           trace s @ Kill (spawnargs c)
             # (case feedbackProcess s of None \<Rightarrow> [] | Some f \<Rightarrow> [Kill (spawnargs f)])
             @ (case files s feedbackPath of None \<Rightarrow> [] | Some t \<Rightarrow> [Unlink feedbackPath])"
proof -
  have live: "alive (stimulusProcess s)"
    using assms(1,2) by simp
  have null: "read_status s = JNull"
    using assms(4) by (rule read_status_missing)
  have eq: "snd (DELETE s) = remove_feedback (kill_feedback (kill_stimulus s))"
    by (simp add: DELETE_live [OF live] null)
  have fb: "feedbackProcess s = None \<or> alive (feedbackProcess s)"
    using assms(3) by (simp add: handles_live_def)
  have "stimulusProcess (snd (DELETE s)) = None"
    using assms(1) by (simp add: eq kill_feedback_def kill_stimulus_def split: option.splits)
  moreover have "feedbackProcess (snd (DELETE s)) = None"
    using assms(1) fb
    by (auto simp add: eq kill_feedback_def kill_stimulus_def split: option.splits)
  moreover have "files (snd (DELETE s)) feedbackPath = None"
    and "files (snd (DELETE s)) statusPath = files s statusPath"
    by (simp_all add: eq)
  moreover have "trace (snd (DELETE s)) =
           trace s @ Kill (spawnargs c)
             # (case feedbackProcess s of None \<Rightarrow> [] | Some f \<Rightarrow> [Kill (spawnargs f)])
             @ (case files s feedbackPath of None \<Rightarrow> [] | Some t \<Rightarrow> [Unlink feedbackPath])"
    using assms(1) fb
    by (auto simp add: eq remove_feedback_def unlinkSync_def kill_feedback_def kill_stimulus_def
        split: option.splits)
  moreover have "fst (DELETE s) = Response 200 json_success"
    by (simp add: DELETE_def)
  ultimately show ?thesis by blast
qed

theorem stop_without_status_witness:
  "stimulusProcess corrupt_session = Some \<lparr>spawnargs = spawn_args scriptPath, killed = False\<rparr>
   \<and> handles_live corrupt_session
   \<and> files corrupt_session statusPath = Some (Malformed (utf16 ''Unexpected end of JSON input''))
   \<and> fst (DELETE corrupt_session) = Response 200 json_success
   \<and> stimulusProcess (snd (DELETE corrupt_session)) = None
   \<and> feedbackProcess (snd (DELETE corrupt_session)) = None
   \<and> files (snd (DELETE corrupt_session)) feedbackPath = None
   \<and> files (snd (DELETE corrupt_session)) statusPath
       = Some (Malformed (utf16 ''Unexpected end of JSON input''))
   \<and> trace (snd (DELETE corrupt_session))
       = [Kill (spawn_args scriptPath), Kill (spawn_args feedbackScriptPath), Unlink feedbackPath]"
  using stop_without_status [of corrupt_session
      "\<lparr>spawnargs = spawn_args scriptPath, killed = False\<rparr>"]
  by (simp add: corrupt_session_def mid_session_def handles_live_def)

text \<open>
  C10. When \<open>participant_id\<close> is empty or made only of code units that \<open>trim\<close>
  strips, \<open>handleStart\<close> sets the error \<open>Participant ID is required\<close>, changes
  nothing else in the component, and sends no request: the server state is the one
  before the click.
\<close>

theorem handleStart_requires_participant:
  assumes "list_all js_whitespace (participant_id (config h))"
  shows "handleStart reaches evs (h, s) =
     (h\<lparr>error := Some (utf16 ''Participant ID is required'')\<rparr>, s)"
  using assms by (simp add: handleStart_def trim_blank)

theorem handleStart_requires_participant_witness:
  "participant_id (config (fresh_home blank_config))
     = [0x3000, 0x2003, 0xFEFF, 0x2028, 0x0020, 0x0009]
   \<and> list_all js_whitespace (participant_id (config (fresh_home blank_config)))
   \<and> handleStart True [] (fresh_home blank_config, idle_server)
       = ((fresh_home blank_config)\<lparr>error := Some (utf16 ''Participant ID is required'')\<rparr>,
          idle_server)"
  using handleStart_requires_participant [of "fresh_home blank_config" True "[]" idle_server]
  by (simp add: fresh_home_def blank_config_def js_whitespace_def)

end
